theory Spec2Isabelle
  imports Complex_Main "HOL-Library.Multiset"
begin

section \<open>goodreads\_grapher: a shallow embedding of \<open>grapher.py\<close>\<close>

text \<open>
  The program turns the URL of a Goodreads author or series into a scatter chart of the
  average ratings of its books. Everything it does beyond computing values is explicit
  here: the requests sent to the Goodreads client, the lines read from the console and
  the charts handed to matplotlib are components of a \<open>world\<close> record that every
  effectful function takes and returns, and every Python exception is a value
  \<open>Inl e\<close> of the result type.

  Strings are lists of 8-bit characters (read as Latin-1 code points).
\<close>

subsection \<open>Exceptions\<close>

text \<open>
  The program defines no exception class of its own and contains no \<open>try\<close>. The
  exceptions below are the ones its statements can raise: \<open>AttributeError\<close> from
  \<open>re.search(...).group\<close> on \<open>None\<close> and from reading a column of a frame that has
  none, \<open>ValueError\<close> from \<open>int\<close>, \<open>float\<close> and \<open>astype\<close> on text that is not a
  number, \<open>EOFError\<close> from \<open>input\<close> at the end of the console input, and whatever the
  Goodreads client raises from \<open>request\<close>.
\<close>

datatype py_error = AttributeError | ValueError | EOFError | ClientError string

subsection \<open>Text to numbers\<close>

definition is_digit :: "char \<Rightarrow> bool" where
  "is_digit c = (c \<in> set ''0123456789'')"

definition digit_val :: "char \<Rightarrow> nat" where
  "digit_val c = of_char c - 48"

definition digits_to_nat :: "string \<Rightarrow> nat" where
  "digits_to_nat ds = foldl (\<lambda>n c. 10 * n + digit_val c) 0 ds"

text \<open>
  Python's \<open>int(s)\<close> on a string: white space is stripped on both sides, one sign is
  allowed, and the digits may be grouped by single underscores (\<open>1_000\<close>). The white
  space characters are those of \<open>str.isspace\<close> below code point 256.
\<close>

definition is_space :: "char \<Rightarrow> bool" where
  "is_space c = (of_char c \<in> set [9, 10, 11, 12, 13, 28, 29, 30, 31, 32, 133, 160 :: nat])"

definition strip :: "string \<Rightarrow> string" where
  "strip s = rev (dropWhile is_space (rev (dropWhile is_space s)))"

fun digit_groups :: "string \<Rightarrow> bool" where
  "digit_groups [] = False"
| "digit_groups [c] = is_digit c"
| "digit_groups (c # d # cs) =
     (if is_digit c then (if d = CHR ''_'' then digit_groups cs else digit_groups (d # cs))
      else False)"

definition unsigned_int :: "string \<Rightarrow> int option" where
  "unsigned_int s =
     (if digit_groups s then Some (int (digits_to_nat (filter is_digit s))) else None)"

definition py_int :: "string \<Rightarrow> int option" where
  "py_int s =
     (case strip s of
        [] \<Rightarrow> None
      | c # cs \<Rightarrow>
          if c = CHR ''-'' then map_option uminus (unsigned_int cs)
          else if c = CHR ''+'' then unsigned_int cs
          else unsigned_int (c # cs))"

subsection \<open>Floating-point values\<close>

text \<open>
  A rating is a float. The model keeps the finite values as the rationals they denote and
  adds the three special values; rounding to 53 bits is not modelled. pandas divides two
  integer columns element by element and does not raise on a zero divisor: the quotient
  is an infinity, or NaN for \<open>0 / 0\<close>.
\<close>

datatype fval = NaN | NegInf | Fin rat | PosInf

definition fdiv :: "int \<Rightarrow> int \<Rightarrow> fval" where
  "fdiv s c =
     (if c = 0 then (if s = 0 then NaN else if 0 < s then PosInf else NegInf)
      else Fin (of_int s / of_int c))"

fun fclass :: "fval \<Rightarrow> nat" where
  "fclass NaN = 0"
| "fclass NegInf = 1"
| "fclass (Fin x) = 2"
| "fclass PosInf = 3"

fun fin_val :: "fval \<Rightarrow> rat" where
  "fin_val (Fin x) = x"
| "fin_val v = 0"

text \<open>
  \<open>desc_order a b\<close>: the key \<open>a\<close> may stand before the key \<open>b\<close> in a column sorted
  descending with the NaN entries last (\<open>na_position='last'\<close>, the default).
\<close>

definition desc_order :: "fval \<Rightarrow> fval \<Rightarrow> bool" where
  "desc_order a b = (fclass b < fclass a \<or> (fclass a = fclass b \<and> fin_val b \<le> fin_val a))"

subsection \<open>Slices and ranges\<close>

text \<open>
  \<open>xs[:c]\<close>: the first \<open>c\<close> elements when \<open>c\<close> is not negative; a negative \<open>c\<close>
  counts from the end, so \<open>xs[:-1]\<close> is \<open>xs\<close> without its last element.
\<close>

definition py_slice_to :: "int \<Rightarrow> 'a list \<Rightarrow> 'a list" where
  "py_slice_to c xs =
     (if 0 \<le> c then take (nat c) xs else take (nat (int (length xs) + c)) xs)"

text \<open>\<open>range(a, b)\<close>: the integers from \<open>a\<close> up to, and not including, \<open>b\<close>.\<close>

definition py_range :: "int \<Rightarrow> int \<Rightarrow> int list" where
  "py_range a b = [a..b - 1]"

text \<open>
  \<open>math.ceil(total / per_page)\<close>. The source divides as floats and rounds up; below
  \<open>2^53\<close> that is the exact ceiling of the quotient, which is what this computes.
\<close>

definition ceil_div :: "int \<Rightarrow> int \<Rightarrow> int" where
  "ceil_div t p = - ((- t) div p)"

definition DEFAULT_AUTHOR_BOOKS_PER_PAGE :: int where
  "DEFAULT_AUTHOR_BOOKS_PER_PAGE = 30"

definition DEFAULT_SERIES_BOOKS_PER_PAGE :: int where
  "DEFAULT_SERIES_BOOKS_PER_PAGE = 100"

subsection \<open>Sorting a frame by one column, descending\<close>

text \<open>
  \<open>df.sort_values(["average_rating"], ascending=False)\<close> is a call into pandas, which
  computes an indexer (the row positions in their new order) from the key column alone and
  takes the rows in that order. The code passes no \<open>kind\<close>, so the algorithm is the
  library's default (\<open>quicksort\<close>), which the library does not document as stable. The
  indexer computation is therefore a parameter \<open>argsort\<close> of the model, and
  \<open>is_desc_argsort\<close> is what the library promises of it: a permutation of the positions
  that puts the keys in descending order, NaN last. \<open>keeps_ties\<close> is stability: rows
  with equal keys stay in their order.
\<close>

type_synonym argsort = "fval list \<Rightarrow> nat list"

definition sort_values_desc :: "argsort \<Rightarrow> ('r \<Rightarrow> fval) \<Rightarrow> 'r list \<Rightarrow> 'r list" where
  "sort_values_desc argsort key df = map (\<lambda>i. df ! i) (argsort (map key df))"



text \<open>
  Two sorting functions that meet the promise, used to run the model: an insertion sort
  that puts a row after the rows of equal key already placed, and one that puts it before
  them.
\<close>

fun insert_after :: "fval list \<Rightarrow> nat \<Rightarrow> nat list \<Rightarrow> nat list" where
  "insert_after ks i [] = [i]"
| "insert_after ks i (j # js) =
     (if desc_order (ks ! j) (ks ! i) then j # insert_after ks i js else i # j # js)"

definition argsort_stable :: argsort where
  "argsort_stable ks = foldl (\<lambda>acc i. insert_after ks i acc) [] [0..<length ks]"



subsection \<open>Identifier extraction\<close>

text \<open>
  \<open>str.replace(old, "")\<close>: every occurrence of \<open>old\<close>, found from left to right
  without overlap, is removed.
\<close>

function str_remove :: "string \<Rightarrow> string \<Rightarrow> string" where
  "str_remove old [] = []"
| "str_remove old (c # cs) =
     (if old \<noteq> [] \<and> take (length old) (c # cs) = old
      then str_remove old (drop (length old) (c # cs))
      else c # str_remove old cs)"
  by pat_completeness auto
termination
  by (relation "measure (\<lambda>(old, s). length s)") auto

text \<open>
  \<open>re.search(r"(\d+)-.*", s)\<close>: the leftmost position where a run of digits is
  followed by a hyphen; group 1 is that run. The digits are matched greedily, and giving
  one back never helps (the next character would be a digit, not a hyphen), so only the
  whole run at a position counts.
\<close>

fun series_search :: "string \<Rightarrow> string option" where
  "series_search [] = None"
| "series_search (c # cs) =
     (let ds = takeWhile is_digit (c # cs); rest = dropWhile is_digit (c # cs)
      in if ds \<noteq> [] \<and> take 1 rest = ''-'' then Some ds else series_search cs)"

text \<open>
  \<open>re.search(r".*show\/(\d+)\..*", s)\<close>. \<open>author_match_here\<close> is
  \<open>show\/(\d+)\.\<close> at the head of a string. The leading \<open>.*\<close> does not cross a line
  feed and is greedy: the match starts in the first line that holds an occurrence, and
  group 1 is the digit run of the last occurrence in that line.
\<close>

definition author_match_here :: "string \<Rightarrow> string option" where
  "author_match_here s =
     (if take 5 s = ''show/'' then
        (let ds = takeWhile is_digit (drop 5 s); rest = dropWhile is_digit (drop 5 s)
         in if ds \<noteq> [] \<and> take 1 rest = ''.'' then Some ds else None)
      else None)"

fun author_matches :: "string \<Rightarrow> string list" where
  "author_matches [] = []"
| "author_matches (c # cs) =
     (case author_match_here (c # cs) of
        Some ds \<Rightarrow> ds # author_matches cs
      | None \<Rightarrow> author_matches cs)"

definition line_feed :: char where
  "line_feed = CHR 0x0A"

function author_search :: "string \<Rightarrow> string option" where
  "author_search s =
     (case author_matches (takeWhile (\<lambda>c. c \<noteq> line_feed) s) of
        [] \<Rightarrow> (case dropWhile (\<lambda>c. c \<noteq> line_feed) s of
                 [] \<Rightarrow> None
               | c # rest \<Rightarrow> author_search rest)
      | m # ms \<Rightarrow> Some (last (m # ms)))"
  by pat_completeness auto
termination
proof (relation "measure length")
  show "wf (measure length)" by simp
next
  fix s :: string and c rest
  assume "dropWhile (\<lambda>c. c \<noteq> line_feed) s = c # rest"
  then have "length (c # rest) \<le> length s"
    by (metis length_dropWhile_le)
  then show "(rest, s) \<in> measure length" by simp
qed

declare author_search.simps [simp del]

text \<open>
  The two extractors. \<open>re.search\<close> returns \<open>None\<close> when nothing matches, and
  \<open>None.group(1)\<close> raises \<open>AttributeError\<close>; \<open>int\<close> of a run of digits cannot fail.
\<close>

definition author_url_to_author_id :: "string \<Rightarrow> py_error + int" where
  "author_url_to_author_id url =
     (let raw_author_str = str_remove ''https://www.goodreads.com/author/'' url
      in case author_search raw_author_str of
           None \<Rightarrow> Inl AttributeError
         | Some ds \<Rightarrow> Inr (int (digits_to_nat ds)))"

definition series_url_to_series_id :: "string \<Rightarrow> py_error + int" where
  "series_url_to_series_id url =
     (let raw_series_str = str_remove ''https://www.goodreads.com/series/'' url
      in case series_search raw_series_str of
           None \<Rightarrow> Inl AttributeError
         | Some ds \<Rightarrow> Inr (int (digits_to_nat ds)))"



subsection \<open>The Goodreads client, the console and the chart window\<close>

text \<open>
  One entry of a series listing, with the fields the program reads: the entry's
  \<open>user_position\<close>, the \<open>ratings_sum\<close> and \<open>ratings_count\<close> of its \<open>work\<close>
  (text, as the client delivers them) and the \<open>title\<close> of the work's \<open>best_book\<close>.
\<close>

record series_work =
  user_position :: string
  work_ratings_sum :: string
  work_ratings_count :: string
  best_book_title :: string

text \<open>
  One book of an author listing: the text of its nested \<open>id\<close>, and what the
  \<open>GoodreadsBook\<close> accessors give for it: the \<open>gid\<close> of each of \<open>book.authors\<close>,
  \<open>book.ratings_count\<close>, and the \<open>title_without_series\<close> and \<open>average_rating\<close>
  (text) entries of its dictionary.
\<close>

record author_book =
  id_text :: string
  authors_gid :: "int list"
  book_ratings_count :: int
  title_without_series :: string
  book_average_rating :: string

record goodreads_book =
  book_id :: int
  book_dict :: author_book

record series_page =
  series_works_count :: string
  series_works :: "series_work list"

record author_page =
  books_total :: string
  books_book :: "author_book list"

text \<open>
  A request is \<open>series/show\<close> with an id and a page, or \<open>author/list\<close> with an id and,
  when given, a page. The client answers a request with a page or raises; its answer may
  depend on the requests made before (the first argument), so nothing says that asking
  twice gives the same answer.
\<close>

datatype request = Series_show int int | Author_list int "int option"

record client =
  series_show :: "request list \<Rightarrow> int \<Rightarrow> int \<Rightarrow> py_error + series_page"
  author_list :: "request list \<Rightarrow> int \<Rightarrow> int option \<Rightarrow> py_error + author_page"

text \<open>
  What the program takes from pandas and does not contain itself: the indexer of
  \<open>sort_values\<close> and the conversion of text to a float in \<open>astype(float)\<close>.
\<close>

record pandas =
  nargsort :: argsort
  to_float :: "string \<Rightarrow> fval option"

type_synonym chart = "(string \<times> fval) list"

record world =
  stdin :: "string list"
  requested :: "request list"
  charts :: "chart list"

type_synonym 'a run = "(py_error + 'a) \<times> world"

definition request_series :: "client \<Rightarrow> int \<Rightarrow> int \<Rightarrow> world \<Rightarrow> series_page run" where
  "request_series gc series_id p w =
     (series_show gc (requested w) series_id p,
      w\<lparr>requested := requested w @ [Series_show series_id p]\<rparr>)"

definition request_author :: "client \<Rightarrow> int \<Rightarrow> int option \<Rightarrow> world \<Rightarrow> author_page run" where
  "request_author gc author_id p w =
     (author_list gc (requested w) author_id p,
      w\<lparr>requested := requested w @ [Author_list author_id p]\<rparr>)"

text \<open>\<open>input(prompt)\<close>: the next line of the console, without its line end.\<close>

definition input_line :: "world \<Rightarrow> string run" where
  "input_line w =
     (case stdin w of
        [] \<Rightarrow> (Inl EOFError, w)
      | l # ls \<Rightarrow> (Inr l, w\<lparr>stdin := ls\<rparr>))"

text \<open>
  \<open>frame.plot(kind="scatter", x=..., y="average_rating", xticks=[])\<close> followed by
  \<open>plt.show()\<close>: the chart is handed over and the call returns when the window is
  closed. What matplotlib does with the points is outside the program.
\<close>

definition plot :: "chart \<Rightarrow> world \<Rightarrow> world" where
  "plot c w = w\<lparr>charts := charts w @ [c]\<rparr>"

subsection \<open>Frames\<close>

record series_row =
  title :: string
  ratings_sum :: int
  ratings_count :: int
  average_rating :: fval
  series_position :: string

record author_row =
  row_title_without_series :: string
  row_average_rating :: fval
  row_ratings_count :: int

text \<open>
  \<open>astype(int)\<close> and \<open>astype(float)\<close> on a column of text: every entry is converted,
  and the first one that is not a number raises \<open>ValueError\<close>.
\<close>

fun astype :: "(string \<Rightarrow> 'a option) \<Rightarrow> string list \<Rightarrow> py_error + 'a list" where
  "astype conv [] = Inr []"
| "astype conv (x # xs) =
     (case conv x of
        None \<Rightarrow> Inl ValueError
      | Some v \<Rightarrow> (case astype conv xs of Inl e \<Rightarrow> Inl e | Inr vs \<Rightarrow> Inr (v # vs)))"

text \<open>
  Lines 156 to 169 of \<open>graph_series\<close>: every entry becomes one dictionary (the work, its
  best book and the position merged), the dictionaries become the rows of a frame, the
  two rating columns are converted to integers and \<open>average_rating\<close> is their quotient,
  row by row (the assignment \<open>series_df.average_rating = ...\<close> replaces the column of
  that name that the works bring along). No entry is left out. A frame built from no
  dictionary has no column, and reading \<open>series_df.ratings_sum\<close> from it raises
  \<open>AttributeError\<close>.
\<close>

definition series_frame :: "series_work list \<Rightarrow> py_error + series_row list" where
  "series_frame series_work_list =
     (if series_work_list = [] then Inl AttributeError
      else (case astype py_int (map work_ratings_sum series_work_list) of
              Inl e \<Rightarrow> Inl e
            | Inr sum_col \<Rightarrow>
                (case astype py_int (map work_ratings_count series_work_list) of
                   Inl e \<Rightarrow> Inl e
                 | Inr count_col \<Rightarrow>
                     Inr (map (\<lambda>(wk, s, c).
                            \<lparr>title = best_book_title wk, ratings_sum = s, ratings_count = c,
                             average_rating = fdiv s c, series_position = user_position wk\<rparr>)
                          (zip series_work_list (zip sum_col count_col))))))"

text \<open>
  Lines 297 and 298 of \<open>graph_author\<close>: the dictionaries of the books that passed the
  filter become the rows of a frame and \<open>average_rating\<close> is converted to floats. As
  above, a frame built from no book has no \<open>average_rating\<close> column to read.
\<close>

definition author_frame :: "pandas \<Rightarrow> goodreads_book list \<Rightarrow> py_error + author_row list" where
  "author_frame pd books =
     (if books = [] then Inl AttributeError
      else (case astype (to_float pd) (map (book_average_rating \<circ> book_dict) books) of
              Inl e \<Rightarrow> Inl e
            | Inr ratings \<Rightarrow>
                Inr (map (\<lambda>(b, r).
                       \<lparr>row_title_without_series = title_without_series (book_dict b),
                        row_average_rating = r,
                        row_ratings_count = book_ratings_count (book_dict b)\<rparr>)
                     (zip books ratings))))"

subsection \<open>The four charts\<close>

definition avg_rating_in_series_order :: "series_row list \<Rightarrow> int \<Rightarrow> chart" where
  "avg_rating_in_series_order series_df cut_off =
     py_slice_to cut_off (map (\<lambda>r. (title r, average_rating r)) series_df)"

definition graph_avg_rating_by_series_order :: "series_row list \<Rightarrow> int \<Rightarrow> world \<Rightarrow> world" where
  "graph_avg_rating_by_series_order series_df cut_off w =
     plot (avg_rating_in_series_order series_df cut_off) w"

definition series_book_by_average_rating :: "pandas \<Rightarrow> series_row list \<Rightarrow> int \<Rightarrow> chart" where
  "series_book_by_average_rating pd series_df cut_off =
     map (\<lambda>r. (title r, average_rating r))
       (sort_values_desc (nargsort pd) average_rating (py_slice_to cut_off series_df))"

definition graph_series_sort_by_average_rating ::
  "pandas \<Rightarrow> series_row list \<Rightarrow> int \<Rightarrow> world \<Rightarrow> world" where
  "graph_series_sort_by_average_rating pd series_df cut_off w =
     plot (series_book_by_average_rating pd series_df cut_off) w"

definition author_book_by_average_rating :: "pandas \<Rightarrow> author_row list \<Rightarrow> int \<Rightarrow> chart" where
  "author_book_by_average_rating pd author_books_df cut_off =
     map (\<lambda>r. (row_title_without_series r, row_average_rating r))
       (sort_values_desc (nargsort pd) row_average_rating (py_slice_to cut_off author_books_df))"

definition graph_author_sort_by_average_rating ::
  "pandas \<Rightarrow> author_row list \<Rightarrow> int \<Rightarrow> world \<Rightarrow> world" where
  "graph_author_sort_by_average_rating pd author_books_df cut_off w =
     plot (author_book_by_average_rating pd author_books_df cut_off) w"

definition avg_rating_by_popularity :: "author_row list \<Rightarrow> int \<Rightarrow> chart" where
  "avg_rating_by_popularity author_books_df cut_off =
     py_slice_to cut_off
       (map (\<lambda>r. (row_title_without_series r, row_average_rating r)) author_books_df)"

definition graph_avg_rating_by_popularity :: "author_row list \<Rightarrow> int \<Rightarrow> world \<Rightarrow> world" where
  "graph_avg_rating_by_popularity author_books_df cut_off w =
     plot (avg_rating_by_popularity author_books_df cut_off) w"

subsection \<open>The cut-off prompt\<close>

text \<open>
  \<open>int(input("New cut off number (Enter to cancel):") or 0)\<close>: an empty line counts
  as \<open>0\<close>, any other line goes through \<open>int\<close>, which raises \<open>ValueError\<close> on text
  that is not an integer. Nothing catches that exception.
\<close>

definition prompt_new_cut_off :: "world \<Rightarrow> int run" where
  "prompt_new_cut_off w =
     (case input_line w of
        (Inl e, w1) \<Rightarrow> (Inl e, w1)
      | (Inr line, w1) \<Rightarrow>
          (case (if line = [] then Some 0 else py_int line) of
             None \<Rightarrow> (Inl ValueError, w1)
           | Some NEW_CUT_OFF \<Rightarrow> (Inr NEW_CUT_OFF, w1)))"

text \<open>The \<open>while True\<close> loop of \<open>graph_series\<close> (lines 170 to 182).\<close>

function series_loop ::
  "pandas \<Rightarrow> series_row list \<Rightarrow> bool \<Rightarrow> bool \<Rightarrow> int \<Rightarrow> world \<Rightarrow> unit run" where
  "series_loop pd series_df sort_by_rating prompt_new_cutoff cut_off w =
     (let w1 = (if sort_by_rating
                then graph_series_sort_by_average_rating pd series_df cut_off w
                else graph_avg_rating_by_series_order series_df cut_off w)
      in if prompt_new_cutoff then
           (case prompt_new_cut_off w1 of
              (Inl e, w2) \<Rightarrow> (Inl e, w2)
            | (Inr NEW_CUT_OFF, w2) \<Rightarrow>
                if NEW_CUT_OFF = 0 then (Inr (), w2)
                else series_loop pd series_df sort_by_rating prompt_new_cutoff NEW_CUT_OFF w2)
         else (Inr (), w1))"
  by pat_completeness auto
termination
  by (relation "measure (\<lambda>(pd, df, s, p, c, w). length (stdin w))")
     (auto simp: prompt_new_cut_off_def input_line_def plot_def
        graph_series_sort_by_average_rating_def graph_avg_rating_by_series_order_def
        split: list.splits option.splits if_splits)

declare series_loop.simps [simp del]

text \<open>The \<open>while True\<close> loop of \<open>graph_author\<close> (lines 299 to 311).\<close>

function author_loop ::
  "pandas \<Rightarrow> author_row list \<Rightarrow> bool \<Rightarrow> bool \<Rightarrow> int \<Rightarrow> world \<Rightarrow> unit run" where
  "author_loop pd author_books_df sort_by_rating prompt_new_cutoff cut_off w =
     (let w1 = (if sort_by_rating
                then graph_author_sort_by_average_rating pd author_books_df cut_off w
                else graph_avg_rating_by_popularity author_books_df cut_off w)
      in if prompt_new_cutoff then
           (case prompt_new_cut_off w1 of
              (Inl e, w2) \<Rightarrow> (Inl e, w2)
            | (Inr NEW_CUT_OFF, w2) \<Rightarrow>
                if NEW_CUT_OFF = 0 then (Inr (), w2)
                else author_loop pd author_books_df sort_by_rating prompt_new_cutoff NEW_CUT_OFF w2)
         else (Inr (), w1))"
  by pat_completeness auto
termination
  by (relation "measure (\<lambda>(pd, df, s, p, c, w). length (stdin w))")
     (auto simp: prompt_new_cut_off_def input_line_def plot_def
        graph_author_sort_by_average_rating_def graph_avg_rating_by_popularity_def
        split: list.splits option.splits if_splits)

declare author_loop.simps [simp del]

subsection \<open>Series mode\<close>

text \<open>
  The list comprehension of lines 147 to 152: one request for each page of the range, in
  order; the first request that raises ends the comprehension.
\<close>

fun series_work_for_pages ::
  "client \<Rightarrow> int \<Rightarrow> int list \<Rightarrow> world \<Rightarrow> series_work list list run" where
  "series_work_for_pages gc series_id [] w = (Inr [], w)"
| "series_work_for_pages gc series_id (p # ps) w =
     (case request_series gc series_id p w of
        (Inl e, w1) \<Rightarrow> (Inl e, w1)
      | (Inr resp, w1) \<Rightarrow>
          (case series_work_for_pages gc series_id ps w1 of
             (Inl e, w2) \<Rightarrow> (Inl e, w2)
           | (Inr rest, w2) \<Rightarrow> (Inr (series_works resp # rest), w2)))"

text \<open>Lines 138 to 155 of \<open>graph_series\<close>: the works of all pages, in page order.\<close>

definition series_retrieve :: "client \<Rightarrow> int \<Rightarrow> world \<Rightarrow> series_work list run" where
  "series_retrieve gc series_id w =
     (case request_series gc series_id 1 w of
        (Inl e, w1) \<Rightarrow> (Inl e, w1)
      | (Inr resp, w1) \<Rightarrow>
          (case py_int (series_works_count resp) of
             None \<Rightarrow> (Inl ValueError, w1)
           | Some total_count \<Rightarrow>
               (let pages = ceil_div total_count DEFAULT_SERIES_BOOKS_PER_PAGE + 1
                in if 1 < pages then
                     (case series_work_for_pages gc series_id (py_range 2 pages) w1 of
                        (Inl e, w2) \<Rightarrow> (Inl e, w2)
                      | (Inr later, w2) \<Rightarrow> (Inr (series_works resp @ concat later), w2))
                   else (Inr (series_works resp), w1))))"

definition graph_series ::
  "client \<Rightarrow> pandas \<Rightarrow> string \<Rightarrow> int \<Rightarrow> bool \<Rightarrow> bool \<Rightarrow> world \<Rightarrow> unit run" where
  "graph_series gc pd url cut_off prompt_new_cutoff sort_by_rating w =
     (case series_url_to_series_id url of
        Inl e \<Rightarrow> (Inl e, w)
      | Inr series_id \<Rightarrow>
          (case series_retrieve gc series_id w of
             (Inl e, w1) \<Rightarrow> (Inl e, w1)
           | (Inr series_work_list, w1) \<Rightarrow>
               (case series_frame series_work_list of
                  Inl e \<Rightarrow> (Inl e, w1)
                | Inr series_df \<Rightarrow>
                    series_loop pd series_df sort_by_rating prompt_new_cutoff cut_off w1)))"

subsection \<open>Author mode\<close>

definition author_books_total_pages :: "client \<Rightarrow> int \<Rightarrow> world \<Rightarrow> int run" where
  "author_books_total_pages gc author_id w =
     (case request_author gc author_id None w of
        (Inl e, w1) \<Rightarrow> (Inl e, w1)
      | (Inr resp, w1) \<Rightarrow>
          (case py_int (books_total resp) of
             None \<Rightarrow> (Inl ValueError, w1)
           | Some total_count \<Rightarrow> (Inr (ceil_div total_count DEFAULT_AUTHOR_BOOKS_PER_PAGE + 1), w1)))"

text \<open>
  \<open>author_books_for_page\<close>: one request with the page number; every book of the answer
  becomes a \<open>GoodreadsBook\<close> whose \<open>id\<close> is the integer read from the text of the
  nested id.
\<close>

definition author_books_for_page ::
  "client \<Rightarrow> int \<Rightarrow> int \<Rightarrow> world \<Rightarrow> goodreads_book list run" where
  "author_books_for_page gc author_id page w =
     (case request_author gc author_id (Some page) w of
        (Inl e, w1) \<Rightarrow> (Inl e, w1)
      | (Inr resp, w1) \<Rightarrow>
          (case astype py_int (map id_text (books_book resp)) of
             Inl e \<Rightarrow> (Inl e, w1)
           | Inr ids \<Rightarrow>
               (Inr (map (\<lambda>(b, i). \<lparr>book_id = i, book_dict = b\<rparr>) (zip (books_book resp) ids)),
                w1)))"

fun author_books_for_pages ::
  "client \<Rightarrow> int \<Rightarrow> int list \<Rightarrow> world \<Rightarrow> goodreads_book list list run" where
  "author_books_for_pages gc author_id [] w = (Inr [], w)"
| "author_books_for_pages gc author_id (p # ps) w =
     (case author_books_for_page gc author_id p w of
        (Inl e, w1) \<Rightarrow> (Inl e, w1)
      | (Inr books, w1) \<Rightarrow>
          (case author_books_for_pages gc author_id ps w1 of
             (Inl e, w2) \<Rightarrow> (Inl e, w2)
           | (Inr rest, w2) \<Rightarrow> (Inr (books # rest), w2)))"

text \<open>
  \<open>author_books_all_pages\<close>: the range is computed first (one request, for the total),
  then every page of \<open>range(1, total_pages)\<close> is requested.
\<close>

definition author_books_all_pages :: "client \<Rightarrow> int \<Rightarrow> world \<Rightarrow> goodreads_book list run" where
  "author_books_all_pages gc author_id w =
     (case author_books_total_pages gc author_id w of
        (Inl e, w1) \<Rightarrow> (Inl e, w1)
      | (Inr total_pages, w1) \<Rightarrow>
          (case author_books_for_pages gc author_id (py_range 1 total_pages) w1 of
             (Inl e, w2) \<Rightarrow> (Inl e, w2)
           | (Inr page_books, w2) \<Rightarrow> (Inr (concat page_books), w2)))"

text \<open>The condition of the list comprehension of lines 291 to 296.\<close>

definition passes_filter :: "int \<Rightarrow> int \<Rightarrow> goodreads_book \<Rightarrow> bool" where
  "passes_filter author_id min_num_ratings book =
     (author_id \<in> set (authors_gid (book_dict book))
      \<and> min_num_ratings < book_ratings_count (book_dict book))"

definition filtered_author_books ::
  "int \<Rightarrow> int \<Rightarrow> goodreads_book list \<Rightarrow> goodreads_book list" where
  "filtered_author_books author_id min_num_ratings author_books =
     filter (passes_filter author_id min_num_ratings) author_books"

definition graph_author ::
  "client \<Rightarrow> pandas \<Rightarrow> string \<Rightarrow> int \<Rightarrow> bool \<Rightarrow> bool \<Rightarrow> int \<Rightarrow> world \<Rightarrow> unit run" where
  "graph_author gc pd url cut_off prompt_new_cutoff sort_by_rating min_num_ratings w =
     (case author_url_to_author_id url of
        Inl e \<Rightarrow> (Inl e, w)
      | Inr author_id \<Rightarrow>
          (case author_books_all_pages gc author_id w of
             (Inl e, w1) \<Rightarrow> (Inl e, w1)
           | (Inr author_books, w1) \<Rightarrow>
               (case author_frame pd (filtered_author_books author_id min_num_ratings author_books) of
                  Inl e \<Rightarrow> (Inl e, w1)
                | Inr author_books_df \<Rightarrow>
                    author_loop pd author_books_df sort_by_rating prompt_new_cutoff cut_off w1)))"

subsection \<open>The console input is only ever consumed\<close>

text \<open>
  No function of the program puts a line back on the console, and the requests and the
  charts leave it alone. The loops of \<open>main\<close> below terminate because of this.
\<close>

lemma stdin_plot: "stdin (plot c w) = stdin w"
  by (simp add: plot_def)

lemma stdin_prompt_new_cut_off:
  "prompt_new_cut_off w = (r, w') \<Longrightarrow> length (stdin w') \<le> length (stdin w)"
  by (auto simp: prompt_new_cut_off_def input_line_def split: list.splits option.splits if_splits)

lemma stdin_series_loop:
  "series_loop pd df s p c w = (r, w') \<Longrightarrow> length (stdin w') \<le> length (stdin w)"
proof (induction pd df s p c w arbitrary: r w' rule: series_loop.induct)
  case (1 pd df s p c w)
  define w1 where "w1 = (if s then graph_series_sort_by_average_rating pd df c w
                else graph_avg_rating_by_series_order df c w)"
  have w1: "stdin w1 = stdin w"
    by (simp add: w1_def graph_series_sort_by_average_rating_def
        graph_avg_rating_by_series_order_def stdin_plot)
  obtain r2 w2 where pr: "prompt_new_cut_off w1 = (r2, w2)" by (cases "prompt_new_cut_off w1")
  have le: "length (stdin w2) \<le> length (stdin w)"
    using stdin_prompt_new_cut_off [OF pr] w1 by simp
  have ih: "p \<Longrightarrow> r2 = Inr n \<Longrightarrow> n \<noteq> 0 \<Longrightarrow> series_loop pd df s p n w2 = (r, w') \<Longrightarrow>
      length (stdin w') \<le> length (stdin w2)" for n
    using "1.IH" [OF w1_def _ _ _ , of "Inr n" w2 n r w'] pr by simp
  from "1.prems" show ?case
    using w1 pr le ih
    by (subst (asm) series_loop.simps)
       (auto simp: w1_def [symmetric] Let_def split: sum.splits if_splits intro: order_trans)
qed

lemma stdin_author_loop:
  "author_loop pd df s p c w = (r, w') \<Longrightarrow> length (stdin w') \<le> length (stdin w)"
proof (induction pd df s p c w arbitrary: r w' rule: author_loop.induct)
  case (1 pd df s p c w)
  define w1 where "w1 = (if s then graph_author_sort_by_average_rating pd df c w
                else graph_avg_rating_by_popularity df c w)"
  have w1: "stdin w1 = stdin w"
    by (simp add: w1_def graph_author_sort_by_average_rating_def
        graph_avg_rating_by_popularity_def stdin_plot)
  obtain r2 w2 where pr: "prompt_new_cut_off w1 = (r2, w2)" by (cases "prompt_new_cut_off w1")
  have le: "length (stdin w2) \<le> length (stdin w)"
    using stdin_prompt_new_cut_off [OF pr] w1 by simp
  have ih: "p \<Longrightarrow> r2 = Inr n \<Longrightarrow> n \<noteq> 0 \<Longrightarrow> author_loop pd df s p n w2 = (r, w') \<Longrightarrow>
      length (stdin w') \<le> length (stdin w2)" for n
    using "1.IH" [OF w1_def _ _ _ , of "Inr n" w2 n r w'] pr by simp
  from "1.prems" show ?case
    using w1 pr le ih
    by (subst (asm) author_loop.simps)
       (auto simp: w1_def [symmetric] Let_def split: sum.splits if_splits intro: order_trans)
qed

lemma stdin_request_series: "request_series gc i p w = (r, w') \<Longrightarrow> stdin w' = stdin w"
  by (auto simp: request_series_def)

lemma stdin_request_author: "request_author gc i p w = (r, w') \<Longrightarrow> stdin w' = stdin w"
  by (auto simp: request_author_def)

lemma stdin_series_work_for_pages:
  "series_work_for_pages gc i ps w = (r, w') \<Longrightarrow> stdin w' = stdin w"
proof (induction ps arbitrary: w r w')
  case Nil
  then show ?case by simp
next
  case (Cons p ps)
  from Cons.prems show ?case
    by (auto split: prod.splits sum.splits) (metis Cons.IH stdin_request_series)+
qed

lemma stdin_series_retrieve: "series_retrieve gc i w = (r, w') \<Longrightarrow> stdin w' = stdin w"
  by (auto simp: series_retrieve_def Let_def split: prod.splits sum.splits option.splits if_splits)
     (metis stdin_request_series stdin_series_work_for_pages)+

lemma stdin_graph_series:
  "graph_series gc pd url c p s w = (r, w') \<Longrightarrow> length (stdin w') \<le> length (stdin w)"
  by (auto simp: graph_series_def split: prod.splits sum.splits
      dest!: stdin_series_retrieve stdin_series_loop)

lemma stdin_author_books_for_page:
  "author_books_for_page gc i p w = (r, w') \<Longrightarrow> stdin w' = stdin w"
  by (auto simp: author_books_for_page_def split: prod.splits sum.splits)
     (metis stdin_request_author)+

lemma stdin_author_books_for_pages:
  "author_books_for_pages gc i ps w = (r, w') \<Longrightarrow> stdin w' = stdin w"
proof (induction ps arbitrary: w r w')
  case Nil
  then show ?case by simp
next
  case (Cons p ps)
  from Cons.prems show ?case
    by (auto split: prod.splits sum.splits) (metis Cons.IH stdin_author_books_for_page)+
qed

lemma stdin_author_books_all_pages:
  "author_books_all_pages gc i w = (r, w') \<Longrightarrow> stdin w' = stdin w"
  by (auto simp: author_books_all_pages_def author_books_total_pages_def
      split: prod.splits sum.splits option.splits)
     (metis stdin_request_author stdin_author_books_for_pages)+

lemma stdin_graph_author:
  "graph_author gc pd url c p s m w = (r, w') \<Longrightarrow> length (stdin w') \<le> length (stdin w)"
  by (auto simp: graph_author_def split: prod.splits sum.splits
      dest!: stdin_author_books_all_pages stdin_author_loop)

subsection \<open>The driver\<close>

text \<open>\<open>raw_urls.split(" ")\<close>: the pieces between single spaces, empty pieces included.\<close>

fun split_space :: "string \<Rightarrow> string list" where
  "split_space [] = [[]]"
| "split_space (c # cs) =
     (if c = CHR '' '' then [] # split_space cs
      else (case split_space cs of
              [] \<Rightarrow> [[c]]
            | piece # pieces \<Rightarrow> (c # piece) # pieces))"

text \<open>
  \<open>for url in urls: body(url)\<close>. An exception raised by the body leaves the loop: the
  program has no \<open>try\<close>, so the remaining URLs are not visited.
\<close>

fun for_urls :: "(string \<Rightarrow> world \<Rightarrow> unit run) \<Rightarrow> string list \<Rightarrow> world \<Rightarrow> unit run" where
  "for_urls body [] w = (Inr (), w)"
| "for_urls body (url # urls) w =
     (case body url w of
        (Inl e, w1) \<Rightarrow> (Inl e, w1)
      | (Inr u, w1) \<Rightarrow> for_urls body urls w1)"

lemma stdin_for_urls:
  assumes body: "\<And>url w r w'. body url w = (r, w') \<Longrightarrow> length (stdin w') \<le> length (stdin w)"
  shows "for_urls body urls w = (r, w') \<Longrightarrow> length (stdin w') \<le> length (stdin w)"
proof (induction urls arbitrary: w r w')
  case Nil
  then show ?case by simp
next
  case (Cons url urls)
  obtain r1 w1 where b: "body url w = (r1, w1)" by (cases "body url w")
  have le1: "length (stdin w1) \<le> length (stdin w)" using body [OF b] .
  show ?case
  proof (cases r1)
    case (Inl e)
    with Cons.prems b le1 show ?thesis by simp
  next
    case (Inr u)
    with Cons.prems b have "for_urls body urls w1 = (r, w')" by simp
    from Cons.IH [OF this] le1 show ?thesis by simp
  qed
qed

record args =
  args_urls :: "string list"
  args_cut_off :: int
  args_prompt_more_urls :: bool
  args_prompt_new_cutoff :: bool
  args_sort_by_rating :: bool
  args_min_num_ratings :: int
  args_series :: bool
  args_author :: bool

definition series_call :: "client \<Rightarrow> pandas \<Rightarrow> args \<Rightarrow> string \<Rightarrow> world \<Rightarrow> unit run" where
  "series_call gc pd a url =
     graph_series gc pd url (args_cut_off a) (args_prompt_new_cutoff a) (args_sort_by_rating a)"

definition author_call :: "client \<Rightarrow> pandas \<Rightarrow> args \<Rightarrow> string \<Rightarrow> world \<Rightarrow> unit run" where
  "author_call gc pd a url =
     graph_author gc pd url (args_cut_off a) (args_prompt_new_cutoff a) (args_sort_by_rating a)
       (args_min_num_ratings a)"

text \<open>The \<open>while True\<close> loops that ask for more URLs (lines 401 to 416 and 429 to 445).\<close>

function more_series_urls :: "client \<Rightarrow> pandas \<Rightarrow> args \<Rightarrow> world \<Rightarrow> unit run" where
  "more_series_urls gc pd a w =
     (case input_line w of
        (Inl e, w1) \<Rightarrow> (Inl e, w1)
      | (Inr raw_urls, w1) \<Rightarrow>
          if raw_urls \<noteq> [] then
            (case for_urls (series_call gc pd a) (split_space raw_urls) w1 of
               (Inl e, w2) \<Rightarrow> (Inl e, w2)
             | (Inr u, w2) \<Rightarrow> more_series_urls gc pd a w2)
          else (Inr (), w1))"
  by pat_completeness auto
termination
proof (relation "measure (\<lambda>(gc, pd, a, w). length (stdin w))", goal_cases)
  case 1
  show ?case by simp
next
  case (2 gc pd a w x w1 raw_urls y w2 u)
  have "length (stdin w1) < length (stdin w)"
    using 2 by (auto simp: input_line_def split: list.splits)
  moreover have "for_urls (series_call gc pd a) (split_space raw_urls) w1 = (y, w2)"
    using 2 by simp
  then have "length (stdin w2) \<le> length (stdin w1)"
    by (rule stdin_for_urls [rotated]) (simp add: series_call_def stdin_graph_series)
  ultimately show ?case
    by simp
qed

declare more_series_urls.simps [simp del]

function more_author_urls :: "client \<Rightarrow> pandas \<Rightarrow> args \<Rightarrow> world \<Rightarrow> unit run" where
  "more_author_urls gc pd a w =
     (case input_line w of
        (Inl e, w1) \<Rightarrow> (Inl e, w1)
      | (Inr raw_urls, w1) \<Rightarrow>
          if raw_urls \<noteq> [] then
            (case for_urls (author_call gc pd a) (split_space raw_urls) w1 of
               (Inl e, w2) \<Rightarrow> (Inl e, w2)
             | (Inr u, w2) \<Rightarrow> more_author_urls gc pd a w2)
          else (Inr (), w1))"
  by pat_completeness auto
termination
proof (relation "measure (\<lambda>(gc, pd, a, w). length (stdin w))", goal_cases)
  case 1
  show ?case by simp
next
  case (2 gc pd a w x w1 raw_urls y w2 u)
  have "length (stdin w1) < length (stdin w)"
    using 2 by (auto simp: input_line_def split: list.splits)
  moreover have "for_urls (author_call gc pd a) (split_space raw_urls) w1 = (y, w2)"
    using 2 by simp
  then have "length (stdin w2) \<le> length (stdin w1)"
    by (rule stdin_for_urls [rotated]) (simp add: author_call_def stdin_graph_author)
  ultimately show ?case
    by simp
qed

declare more_author_urls.simps [simp del]

text \<open>
  The body of the first \<open>for\<close> loop of \<open>main\<close>: in series mode the prompt for more URLs
  stands inside the loop, so it comes after every URL of the command line.
\<close>

definition series_body :: "client \<Rightarrow> pandas \<Rightarrow> args \<Rightarrow> string \<Rightarrow> world \<Rightarrow> unit run" where
  "series_body gc pd a url w =
     (case series_call gc pd a url w of
        (Inl e, w1) \<Rightarrow> (Inl e, w1)
      | (Inr u, w1) \<Rightarrow>
          if args_prompt_more_urls a then more_series_urls gc pd a w1 else (Inr (), w1))"

text \<open>
  \<open>main\<close>, after \<open>parse_args\<close> and the construction of the client: the arguments and
  the client are given. In author mode the prompt for more URLs stands after the loop.
\<close>

definition main :: "client \<Rightarrow> pandas \<Rightarrow> args \<Rightarrow> world \<Rightarrow> unit run" where
  "main gc pd a w =
     (case (if args_series a then for_urls (series_body gc pd a) (args_urls a) w
            else (Inr (), w)) of
        (Inl e, w1) \<Rightarrow> (Inl e, w1)
      | (Inr u, w1) \<Rightarrow>
          if args_author a then
            (case for_urls (author_call gc pd a) (args_urls a) w1 of
               (Inl e, w2) \<Rightarrow> (Inl e, w2)
             | (Inr u2, w2) \<Rightarrow>
                 if args_prompt_more_urls a then more_author_urls gc pd a w2
                 else (Inr (), w2))
          else (Inr (), w1))"

text \<open>The chart that one round of the loop draws, for the sort flag and the cut-off.\<close>

definition series_chart :: "pandas \<Rightarrow> series_row list \<Rightarrow> bool \<Rightarrow> int \<Rightarrow> chart" where
  "series_chart pd series_df sort_by_rating cut_off =
     (if sort_by_rating then series_book_by_average_rating pd series_df cut_off
      else avg_rating_in_series_order series_df cut_off)"

definition author_chart :: "pandas \<Rightarrow> author_row list \<Rightarrow> bool \<Rightarrow> int \<Rightarrow> chart" where
  "author_chart pd author_books_df sort_by_rating cut_off =
     (if sort_by_rating then author_book_by_average_rating pd author_books_df cut_off
      else avg_rating_by_popularity author_books_df cut_off)"

section \<open>Sample data\<close>

text \<open>
  Concrete inputs on which the model is run below: books and works, clients that answer
  with them, two instances of what the program takes from pandas (one whose indexer
  keeps ties and one whose indexer reverses them), URLs, and command lines.
\<close>

definition book_one_rating :: goodreads_book where
  "book_one_rating = \<lparr>book_id = 1, book_dict = \<lparr>id_text = ''1'', authors_gid = [2565],
     book_ratings_count = 1, title_without_series = ''Casino Royale'',
     book_average_rating = ''3.73''\<rparr>\<rparr>"

definition book_two_ratings :: goodreads_book where
  "book_two_ratings = \<lparr>book_id = 2, book_dict = \<lparr>id_text = ''2'', authors_gid = [7, 2565],
     book_ratings_count = 2, title_without_series = ''Moonraker'',
     book_average_rating = ''3.70''\<rparr>\<rparr>"

definition decimal_float :: "string \<Rightarrow> fval option" where
  "decimal_float s =
     (let a = takeWhile is_digit s; r = dropWhile is_digit s
      in if a \<noteq> [] \<and> take 1 r = ''.'' \<and> drop 1 r \<noteq> [] \<and> list_all is_digit (drop 1 r)
         then Some (Fin (of_nat (digits_to_nat (a @ drop 1 r)) / 10 ^ length (drop 1 r)))
         else None)"

definition pandas_stable :: pandas where
  "pandas_stable = \<lparr>nargsort = argsort_stable, to_float = decimal_float\<rparr>"


definition work_A :: series_work where
  "work_A = \<lparr>user_position = ''1'', work_ratings_sum = ''7'', work_ratings_count = ''2'',
     best_book_title = ''A''\<rparr>"
definition work_B :: series_work where
  "work_B = \<lparr>user_position = ''2'', work_ratings_sum = ''8'', work_ratings_count = ''2'',
     best_book_title = ''B''\<rparr>"
definition work_C :: series_work where
  "work_C = \<lparr>user_position = ''3'', work_ratings_sum = ''12'', work_ratings_count = ''3'',
     best_book_title = ''C''\<rparr>"

definition series_client :: "string \<Rightarrow> series_work list \<Rightarrow> client" where
  "series_client total_text works =
     \<lparr>series_show = (\<lambda>h i p. Inr \<lparr>series_works_count = total_text,
                                     series_works = (if p = 1 then works else [])\<rparr>),
      author_list = (\<lambda>h i p. Inl (ClientError ''no such author''))\<rparr>"

definition console :: "string list \<Rightarrow> world" where
  "console ls = \<lparr>stdin = ls, requested = [], charts = []\<rparr>"

definition bond_url :: string where
  "bond_url = ''https://www.goodreads.com/series/49397-bond''"

definition frame_ABC :: "series_row list" where
  "frame_ABC =
     [\<lparr>title = ''A'', ratings_sum = 7, ratings_count = 2, average_rating = Fin (7 / 2),
       series_position = ''1''\<rparr>,
      \<lparr>title = ''B'', ratings_sum = 8, ratings_count = 2, average_rating = Fin 4,
       series_position = ''2''\<rparr>,
      \<lparr>title = ''C'', ratings_sum = 12, ratings_count = 3, average_rating = Fin 4,
       series_position = ''3''\<rparr>]"

definition slug_only_url :: string where
  "slug_only_url = ''https://www.goodreads.com/series/bond''"

definition batch_args :: args where
  "batch_args =
     \<lparr>args_urls = [slug_only_url, bond_url], args_cut_off = 10,
      args_prompt_more_urls = False, args_prompt_new_cutoff = False,
      args_sort_by_rating = False, args_min_num_ratings = 1,
      args_series = True, args_author = False\<rparr>"

definition author_client :: "string \<Rightarrow> author_book list \<Rightarrow> client" where
  "author_client total_text books =
     \<lparr>series_show = (\<lambda>h i p. Inl (ClientError ''no such series'')),
      author_list = (\<lambda>h i p. Inr \<lparr>books_total = total_text,
                                    books_book = (if p = None \<or> p = Some 1 then books else [])\<rparr>)\<rparr>"

definition fleming_url :: string where
  "fleming_url = ''https://www.goodreads.com/author/show/2565.Ian_Fleming''"


text \<open>
  The client \<open>gc\<close> with the books of its answers to requests without a page number
  replaced by \<open>other\<close>; the totals and the answers to page requests are those of \<open>gc\<close>.
\<close>

definition with_first_books :: "author_book list \<Rightarrow> client \<Rightarrow> client" where
  "with_first_books other gc =
     gc\<lparr>author_list := (\<lambda>h i p.
           if p = None then
             (case author_list gc h i p of
                Inl e \<Rightarrow> Inl e
              | Inr pg \<Rightarrow> Inr (pg\<lparr>books_book := other\<rparr>))
           else author_list gc h i p)\<rparr>"

definition two_books :: "author_book list" where
  "two_books = [book_dict book_one_rating, book_dict book_two_ratings]"

definition rows_fleming :: "author_row list" where
  "rows_fleming =
     [\<lparr>row_title_without_series = ''Casino Royale'', row_average_rating = Fin (373 / 100),
       row_ratings_count = 2\<rparr>,
      \<lparr>row_title_without_series = ''Moonraker'', row_average_rating = Fin (37 / 10),
       row_ratings_count = 2\<rparr>,
      \<lparr>row_title_without_series = ''Goldfinger'', row_average_rating = Fin (373 / 100),
       row_ratings_count = 3\<rparr>]"

definition author_list_url :: string where
  "author_list_url = ''https://www.goodreads.com/author/list/2565''"

definition author_batch_args :: args where
  "author_batch_args =
     \<lparr>args_urls = [author_list_url, fleming_url], args_cut_off = 10,
      args_prompt_more_urls = False, args_prompt_new_cutoff = False,
      args_sort_by_rating = False, args_min_num_ratings = 1,
      args_series = False, args_author = True\<rparr>"

section \<open>Auxiliary facts\<close>

subsection \<open>One round of a loop\<close>

lemma series_loop_once:
  "series_loop pd df s False c w = (Inr (), plot (series_chart pd df s c) w)"
  by (subst series_loop.simps)
     (simp add: series_chart_def graph_series_sort_by_average_rating_def
        graph_avg_rating_by_series_order_def)


lemma author_loop_once:
  "author_loop pd df s False c w = (Inr (), plot (author_chart pd df s c) w)"
  by (subst author_loop.simps)
     (simp add: author_chart_def graph_author_sort_by_average_rating_def
        graph_avg_rating_by_popularity_def)



subsection \<open>Runs of the sample series\<close>



lemma py_int_0: "py_int ''0'' = Some 0"
  by (simp add: py_int_def strip_def is_space_def unsigned_int_def is_digit_def
      digits_to_nat_def digit_val_def)

lemma bond_url_id: "series_url_to_series_id bond_url = Inr 49397"
  by (simp add: series_url_to_series_id_def bond_url_def is_digit_def digits_to_nat_def
      digit_val_def)

lemma py_int_small:
  "py_int ''3'' = Some 3" "py_int ''7'' = Some 7" "py_int ''8'' = Some 8"
  "py_int ''2'' = Some 2" "py_int ''12'' = Some 12"
  by (simp_all add: py_int_def strip_def is_space_def unsigned_int_def is_digit_def
      digits_to_nat_def digit_val_def)

lemma series_frame_ABC: "series_frame [work_A, work_B, work_C] = Inr frame_ABC"
  by (simp add: series_frame_def work_A_def work_B_def work_C_def frame_ABC_def
      py_int_small fdiv_def)

lemma retrieve_one_page:
  "py_int t = Some n \<Longrightarrow> n \<le> 0 \<or> ceil_div n 100 = 1 \<Longrightarrow>
   series_retrieve (series_client t works) i w
     = (Inr works, w\<lparr>requested := requested w @ [Series_show i 1]\<rparr>)"
  by (auto simp: series_retrieve_def request_series_def series_client_def
      DEFAULT_SERIES_BOOKS_PER_PAGE_def py_range_def ceil_div_def Let_def)

lemma graph_series_ABC:
  "graph_series (series_client ''3'' [work_A, work_B, work_C]) pd bond_url c p s w
     = series_loop pd frame_ABC s p c (w\<lparr>requested := requested w @ [Series_show 49397 1]\<rparr>)"
  by (simp add: graph_series_def bond_url_id retrieve_one_page [OF py_int_small(1)] ceil_div_def
      series_frame_ABC)

lemma chart_ABC_all_but_last:
  "avg_rating_in_series_order frame_ABC (- 1) = [(''A'', Fin (7 / 2)), (''B'', Fin 4)]"
  by (simp add: avg_rating_in_series_order_def frame_ABC_def py_slice_to_def)

lemma chart_ABC_10:
  "avg_rating_in_series_order frame_ABC 10
     = [(''A'', Fin (7 / 2)), (''B'', Fin 4), (''C'', Fin 4)]"
  by (simp add: avg_rating_in_series_order_def frame_ABC_def py_slice_to_def)

lemma slug_only_url_fails: "series_url_to_series_id slug_only_url = Inl AttributeError"
  by (simp add: series_url_to_series_id_def slug_only_url_def is_digit_def)

subsection \<open>The loops of the driver\<close>

lemma for_urls_error:
  "for_urls body pre w = (Inr u, w1) \<Longrightarrow> body url w1 = (Inl e, w2) \<Longrightarrow>
   for_urls body (pre @ url # post) w = (Inl e, w2)"
proof (induction pre arbitrary: w)
  case Nil
  then show ?case by simp
next
  case (Cons x pre)
  then show ?case by (auto split: prod.splits sum.splits)
qed

lemma batch_args_fields:
  "args_series batch_args" "\<not> args_author batch_args" "\<not> args_prompt_more_urls batch_args"
  "args_urls batch_args = [slug_only_url, bond_url]"
  "args_cut_off batch_args = 10" "\<not> args_prompt_new_cutoff batch_args"
  "\<not> args_sort_by_rating batch_args"
  by (simp_all add: batch_args_def)

lemma for_urls_single: "for_urls body [url] w = body url w"
  by (simp split: prod.splits sum.splits)

lemma series_call_slug_only:
  "series_call gc pd a slug_only_url w = (Inl AttributeError, w)"
  by (simp add: series_call_def graph_series_def slug_only_url_fails)

lemma series_call_bond_ABC:
  "series_call (series_client ''3'' [work_A, work_B, work_C]) pd batch_args bond_url w
     = (Inr (), plot [(''A'', Fin (7 / 2)), (''B'', Fin 4), (''C'', Fin 4)]
                  (w\<lparr>requested := requested w @ [Series_show 49397 1]\<rparr>))"
  by (simp add: series_call_def graph_series_ABC batch_args_fields series_loop_once
      series_chart_def chart_ABC_10)

lemma main_series_mode:
  "args_series a \<Longrightarrow> \<not> args_author a \<Longrightarrow>
   main gc pd a w = for_urls (series_body gc pd a) (args_urls a) w"
  by (simp add: main_def split: prod.splits sum.splits)

lemma main_author_mode:
  "args_author a \<Longrightarrow> \<not> args_series a \<Longrightarrow>
   main gc pd a w =
     (case for_urls (author_call gc pd a) (args_urls a) w of
        (Inl e, w2) \<Rightarrow> (Inl e, w2)
      | (Inr u2, w2) \<Rightarrow>
          if args_prompt_more_urls a then more_author_urls gc pd a w2 else (Inr (), w2))"
  by (simp add: main_def)

lemma series_body_no_more_urls:
  "\<not> args_prompt_more_urls a \<Longrightarrow> series_body gc pd a url w = series_call gc pd a url w"
  by (simp add: series_body_def split: prod.splits sum.splits)

subsection \<open>The sample author URL\<close>

lemma fleming_url_raw:
  "str_remove ''https://www.goodreads.com/author/'' fleming_url = ''show/2565.Ian_Fleming''"
  by (simp add: fleming_url_def)

lemma fleming_search: "author_search ''show/2565.Ian_Fleming'' = Some ''2565''"
  by (subst author_search.simps) (simp add: line_feed_def author_match_here_def is_digit_def)

lemma fleming_url_id: "author_url_to_author_id fleming_url = Inr 2565"
  by (simp add: author_url_to_author_id_def fleming_url_raw fleming_search digits_to_nat_def
      digit_val_def)

subsection \<open>Frames\<close>










lemma author_total_pages_client:
  "py_int t = Some n \<Longrightarrow>
   author_books_total_pages (author_client t books) i w
     = (Inr (ceil_div n 30 + 1), w\<lparr>requested := requested w @ [Author_list i None]\<rparr>)"
  by (simp add: author_books_total_pages_def request_author_def author_client_def
      DEFAULT_AUTHOR_BOOKS_PER_PAGE_def)

lemma series_frame_empty: "series_frame [] = Inl AttributeError"
  by (simp add: series_frame_def)

lemma author_frame_empty: "author_frame pd [] = Inl AttributeError"
  by (simp add: author_frame_def)

subsection \<open>Page ranges and the requests of a retrieval\<close>

lemma ceil_div_ceiling: "0 < p \<Longrightarrow> ceil_div t p = \<lceil>real_of_int t / real_of_int p\<rceil>"
proof -
  assume "0 < p"
  have "\<lceil>real_of_int t / real_of_int p\<rceil> = - \<lfloor>real_of_int (- t) / real_of_int p\<rfloor>"
    by (simp add: ceiling_def)
  also have "\<dots> = - ((- t) div p)"
    by (simp only: floor_divide_of_int_eq)
  finally show ?thesis by (simp add: ceil_div_def)
qed

lemma ceil_div_pos: "0 < p \<Longrightarrow> 0 < t \<Longrightarrow> 1 \<le> ceil_div t p"
proof -
  assume p: "0 < p" and t: "0 < t"
  have "(- t) div p < 0" using p t by (simp add: div_neg_pos_less0)
  then show ?thesis by (simp add: ceil_div_def)
qed

lemma range_from_one: "py_range 1 (n + 1) = [1..n]"
  by (simp add: py_range_def)






lemma author_books_for_page_requested:
  "author_books_for_page gc i p w = (r, w') \<Longrightarrow>
   requested w' = requested w @ [Author_list i (Some p)]"
  by (auto simp: author_books_for_page_def request_author_def split: sum.splits)


lemma author_books_for_pages_requested:
  "author_books_for_pages gc i ps w = (r, w') \<Longrightarrow> r = Inr pages \<Longrightarrow>
   requested w' = requested w @ map (\<lambda>p. Author_list i (Some p)) ps"
proof (induction ps arbitrary: w r w' pages)
  case Nil
  then show ?case by simp
next
  case (Cons p ps)
  obtain r1 w1 where q: "author_books_for_page gc i p w = (r1, w1)"
    by (cases "author_books_for_page gc i p w")
  have w1: "requested w1 = requested w @ [Author_list i (Some p)]"
    using author_books_for_page_requested [OF q] .
  from Cons.prems q obtain books r2 rest where
      "r1 = Inr books" and rec: "author_books_for_pages gc i ps w1 = (r2, w')" and "r2 = Inr rest"
    by (auto split: sum.splits prod.splits)
  from Cons.IH [OF rec \<open>r2 = Inr rest\<close>] w1 show ?case by simp
qed


lemma author_books_total_pages_value:
  "author_list gc (requested w) i None = Inr resp \<Longrightarrow> py_int (books_total resp) = Some T \<Longrightarrow>
   author_books_total_pages gc i w
     = (Inr (ceil_div T DEFAULT_AUTHOR_BOOKS_PER_PAGE + 1),
        w\<lparr>requested := requested w @ [Author_list i None]\<rparr>)"
  by (simp add: author_books_total_pages_def request_author_def)

lemma author_books_all_pages_requested:
  assumes "author_books_all_pages gc i w = (Inr books, w')"
  shows "\<exists>resp T. author_list gc (requested w) i None = Inr resp
           \<and> py_int (books_total resp) = Some T
           \<and> requested w' = requested w @ Author_list i None #
                 map (\<lambda>p. Author_list i (Some p))
                   (py_range 1 (ceil_div T DEFAULT_AUTHOR_BOOKS_PER_PAGE + 1))"
proof -
  from assms obtain resp T where
    a: "author_list gc (requested w) i None = Inr resp" and
    t: "py_int (books_total resp) = Some T"
    by (auto simp: author_books_all_pages_def author_books_total_pages_def request_author_def
        split: sum.splits option.splits prod.splits)
  let ?w1 = "w\<lparr>requested := requested w @ [Author_list i None]\<rparr>"
  let ?pages = "ceil_div T DEFAULT_AUTHOR_BOOKS_PER_PAGE + 1"
  from assms obtain page_books where
    "author_books_for_pages gc i (py_range 1 ?pages) ?w1 = (Inr page_books, w')"
    by (auto simp: author_books_all_pages_def author_books_total_pages_value [OF a t]
        split: sum.splits prod.splits)
  from author_books_for_pages_requested [OF this refl] a t show ?thesis by simp
qed


lemma with_first_books_page:
  "author_books_for_page (with_first_books other gc) i p w = author_books_for_page gc i p w"
  by (simp add: author_books_for_page_def request_author_def with_first_books_def)

lemma with_first_books_pages:
  "author_books_for_pages (with_first_books other gc) i ps w = author_books_for_pages gc i ps w"
  by (induction ps arbitrary: w) (simp_all add: with_first_books_page split: prod.splits sum.splits)

lemma with_first_books_total_pages:
  "author_books_total_pages (with_first_books other gc) i w = author_books_total_pages gc i w"
  by (simp add: author_books_total_pages_def request_author_def with_first_books_def
      split: sum.splits)

lemma with_first_books_all_pages:
  "author_books_all_pages (with_first_books other gc) i w = author_books_all_pages gc i w"
  by (simp add: author_books_all_pages_def with_first_books_total_pages with_first_books_pages
      split: prod.splits sum.splits)


lemma py_int_31: "py_int ''31'' = Some 31"
  by (simp add: py_int_def strip_def is_space_def unsigned_int_def is_digit_def
      digits_to_nat_def digit_val_def)

lemma py_int_1: "py_int ''1'' = Some 1"
  by (simp add: py_int_def strip_def is_space_def unsigned_int_def is_digit_def
      digits_to_nat_def digit_val_def)

lemma upto_1_2: "[1..2] = [1, 2::int]"
  by (simp add: upto_rec1)



lemma two_books_ids: "astype py_int (map id_text two_books) = Inr [1, 2]"
  by (simp add: two_books_def book_one_rating_def book_two_ratings_def py_int_1 py_int_small)

lemma all_pages_31:
  "author_books_all_pages (author_client ''31'' two_books) 2565 (console [])
     = (Inr [book_one_rating, book_two_ratings],
        \<lparr>stdin = [],
         requested = [Author_list 2565 None, Author_list 2565 (Some 1),
                      Author_list 2565 (Some 2)],
         charts = []\<rparr>)"
proof -
  have p1: "author_books_for_page (author_client ''31'' two_books) 2565 1 w
      = (Inr [book_one_rating, book_two_ratings],
         w\<lparr>requested := requested w @ [Author_list 2565 (Some 1)]\<rparr>)" for w
    by (simp add: author_books_for_page_def request_author_def author_client_def two_books_ids)
       (simp add: two_books_def book_one_rating_def book_two_ratings_def)
  have p2: "author_books_for_page (author_client ''31'' two_books) 2565 2 w
      = (Inr [], w\<lparr>requested := requested w @ [Author_list 2565 (Some 2)]\<rparr>)" for w
    by (simp add: author_books_for_page_def request_author_def author_client_def)
  show ?thesis
    by (simp add: author_books_all_pages_def author_total_pages_client [OF py_int_31]
        ceil_div_def py_range_def upto_1_2 p1 p2 console_def)
qed

lemma upto_from_one: "1 \<le> n \<Longrightarrow> [1..n] = 1 # [2..n]"
  by (simp add: upto_rec1)

subsection \<open>Sorted frames\<close>






lemma slice_to_take: "0 \<le> c \<Longrightarrow> py_slice_to c xs = take (nat c) xs"
  by (simp add: py_slice_to_def)

lemma series_sorted_chart:
  assumes "0 \<le> c"
  shows "series_book_by_average_rating pd df c
     = map (\<lambda>r. (title r, average_rating r))
         (sort_values_desc (nargsort pd) average_rating (take (nat c) df))"
  using assms by (simp add: series_book_by_average_rating_def slice_to_take)

lemma author_sorted_chart:
  assumes "0 \<le> c"
  shows "author_book_by_average_rating pd df c
     = map (\<lambda>r. (row_title_without_series r, row_average_rating r))
         (sort_values_desc (nargsort pd) row_average_rating (take (nat c) df))"
  using assms by (simp add: author_book_by_average_rating_def slice_to_take)


lemma keys_ABC: "map average_rating frame_ABC = [Fin (7 / 2), Fin 4, Fin 4]"
  by (simp add: frame_ABC_def)

lemma argsort_stable_ABC: "argsort_stable [Fin (7 / 2), Fin 4, Fin 4] = [Suc 0, 2, 0]"
  by (simp add: argsort_stable_def desc_order_def)






lemma take_3_ABC: "take (nat 3) frame_ABC = frame_ABC" "take 3 frame_ABC = frame_ABC"
  by (simp_all add: frame_ABC_def)

lemma sorted_ABC_stable:
  "series_book_by_average_rating pandas_stable frame_ABC 3
     = [(''B'', Fin 4), (''C'', Fin 4), (''A'', Fin (7 / 2))]"
  by (simp add: series_sorted_chart take_3_ABC sort_values_desc_def pandas_stable_def keys_ABC
      argsort_stable_ABC)
     (simp add: frame_ABC_def)



lemma sorted_ABC_first_one:
  "series_book_by_average_rating pandas_stable frame_ABC 1 = [(''A'', Fin (7 / 2))]"
  by (simp add: series_book_by_average_rating_def py_slice_to_def sort_values_desc_def
      pandas_stable_def frame_ABC_def argsort_stable_def desc_order_def)

lemma argsort_stable_Nil: "argsort_stable [] = []"
  by (simp add: argsort_stable_def)

lemma sort_values_desc_Nil: "argsort [] = [] \<Longrightarrow> sort_values_desc argsort key [] = []"
  by (simp add: sort_values_desc_def)

subsection \<open>The search for an id\<close>






















subsection \<open>Runs on URLs without an id, and the sample author frame\<close>



lemma author_list_raw:
  "str_remove ''https://www.goodreads.com/author/'' author_list_url = ''list/2565''"
  by (simp add: author_list_url_def)

lemma author_list_search: "author_search ''list/2565'' = None"
  by (subst author_search.simps) (simp add: line_feed_def author_match_here_def is_digit_def)

lemma author_list_url_fails: "author_url_to_author_id author_list_url = Inl AttributeError"
  by (simp add: author_url_to_author_id_def author_list_raw author_list_search)

lemma author_call_list_url:
  "author_call gc pd a author_list_url w = (Inl AttributeError, w)"
  by (simp add: author_call_def graph_author_def author_list_url_fails)

lemma author_batch_args_fields:
  "args_author author_batch_args" "\<not> args_series author_batch_args"
  "args_urls author_batch_args = [author_list_url, fleming_url]"
  by (simp_all add: author_batch_args_def)







section \<open>The author filter\<close>

text \<open>
  Claim C4. In author mode a book passes the filter exactly when the id of the queried
  author is among the ids of the book's authors and the book's ratings count is strictly
  greater than \<open>min_num_ratings\<close>; the filtered list holds exactly the books that pass.
  With a minimum of 1, a book with one rating is left out and a book of the author with
  two ratings is kept.
\<close>

theorem author_filter_iff:
  "(passes_filter author_id min_num_ratings book \<longleftrightarrow>
      author_id \<in> set (authors_gid (book_dict book))
      \<and> min_num_ratings < book_ratings_count (book_dict book))
   \<and> (book \<in> set (filtered_author_books author_id min_num_ratings author_books) \<longleftrightarrow>
      book \<in> set author_books \<and> passes_filter author_id min_num_ratings book)
   \<and> (book_ratings_count (book_dict book) = 1 \<longrightarrow> \<not> passes_filter author_id 1 book)
   \<and> (book_ratings_count (book_dict book) = 2 \<and> author_id \<in> set (authors_gid (book_dict book))
        \<longrightarrow> passes_filter author_id 1 book)"
  by (auto simp: passes_filter_def filtered_author_books_def)

theorem author_filter_iff_witness:
  "book_ratings_count (book_dict book_one_rating) = 1
   \<and> \<not> passes_filter 2565 1 book_one_rating
   \<and> book_ratings_count (book_dict book_two_ratings) = 2
   \<and> 2565 \<in> set (authors_gid (book_dict book_two_ratings))
   \<and> passes_filter 2565 1 book_two_ratings
   \<and> filtered_author_books 2565 1 [book_one_rating, book_two_ratings] = [book_two_ratings]"
  using author_filter_iff [of 2565 1 book_one_rating "[]"]
    author_filter_iff [of 2565 1 book_two_ratings "[]"]
  by (simp add: book_one_rating_def book_two_ratings_def filtered_author_books_def)

section \<open>The cut-off prompt\<close>




section \<open>A batch of URLs\<close>

text \<open>
  Claim C8, as the code has it. \<open>main\<close> runs the URLs in a plain \<open>for\<close> loop with no
  \<open>try\<close>: when the run of one URL raises, whatever the exception, \<open>main\<close> ends with
  that exception in the world that run left behind, and the URLs after it are not
  attempted. This holds in series mode and in author mode.
\<close>

theorem error_ends_batch:
  "(args_series a \<and> \<not> args_author a \<and> args_urls a = pre @ url # post
      \<and> for_urls (series_body gc pd a) pre w = (Inr (), w1)
      \<and> series_body gc pd a url w1 = (Inl e, w2)
     \<longrightarrow> main gc pd a w = (Inl e, w2))
   \<and> (args_author a \<and> \<not> args_series a \<and> args_urls a = pre @ url # post
      \<and> for_urls (author_call gc pd a) pre w = (Inr (), w1)
      \<and> author_call gc pd a url w1 = (Inl e, w2)
     \<longrightarrow> main gc pd a w = (Inl e, w2))"
  by (auto simp: main_series_mode main_author_mode for_urls_error)

text \<open>
  The claim as written fails. The first URL of the batch has no id; the second is the
  sample series. The batch ends with the first URL's exception and without any request
  or chart, while the second URL on its own is requested and drawn.
\<close>

theorem batch_stops_at_first_error:
  "main (series_client ''3'' [work_A, work_B, work_C]) pandas_stable batch_args (console [])
     = (Inl AttributeError, \<lparr>stdin = [], requested = [], charts = []\<rparr>)
   \<and> main (series_client ''3'' [work_A, work_B, work_C]) pandas_stable
        (batch_args\<lparr>args_urls := [bond_url]\<rparr>) (console [])
     = (Inr (), \<lparr>stdin = [], requested = [Series_show 49397 1],
                charts = [[(''A'', Fin (7 / 2)), (''B'', Fin 4), (''C'', Fin 4)]]\<rparr>)"
proof -
  have "main (series_client ''3'' [work_A, work_B, work_C]) pandas_stable batch_args (console [])
      = (Inl AttributeError, console [])"
    by (simp add: main_series_mode batch_args_fields series_body_no_more_urls
        series_call_slug_only)
  moreover have "main (series_client ''3'' [work_A, work_B, work_C]) pandas_stable
        (batch_args\<lparr>args_urls := [bond_url]\<rparr>) (console [])
      = series_call (series_client ''3'' [work_A, work_B, work_C]) pandas_stable batch_args
          bond_url (console [])"
    by (simp add: main_series_mode batch_args_fields series_body_no_more_urls series_call_def
        for_urls_single del: for_urls.simps)
  ultimately show ?thesis
    by (simp add: series_call_bond_ABC console_def plot_def)
qed

theorem error_ends_batch_witness:
  "args_series batch_args \<and> \<not> args_author batch_args
   \<and> args_urls batch_args = [] @ slug_only_url # [bond_url]
   \<and> for_urls (series_body (series_client ''3'' [work_A]) pandas_stable batch_args) []
        (console []) = (Inr (), console [])
   \<and> series_body (series_client ''3'' [work_A]) pandas_stable batch_args slug_only_url
        (console []) = (Inl AttributeError, console [])
   \<and> main (series_client ''3'' [work_A]) pandas_stable batch_args (console [])
       = (Inl AttributeError, console [])
   \<and> args_author author_batch_args \<and> \<not> args_series author_batch_args
   \<and> args_urls author_batch_args = [] @ author_list_url # [fleming_url]
   \<and> for_urls (author_call (author_client ''31'' two_books) pandas_stable author_batch_args) []
        (console []) = (Inr (), console [])
   \<and> author_call (author_client ''31'' two_books) pandas_stable author_batch_args
        author_list_url (console []) = (Inl AttributeError, console [])
   \<and> main (author_client ''31'' two_books) pandas_stable author_batch_args (console [])
       = (Inl AttributeError, console [])"
  using error_ends_batch [of batch_args "[]" slug_only_url "[bond_url]"
      "series_client ''3'' [work_A]" pandas_stable "console []" "console []" AttributeError
      "console []"]
    error_ends_batch [of author_batch_args "[]" author_list_url "[fleming_url]"
      "author_client ''31'' two_books" pandas_stable "console []" "console []" AttributeError
      "console []"]
  by (simp add: batch_args_fields series_body_no_more_urls series_call_slug_only
      author_batch_args_fields author_call_list_url)

section \<open>Works without ratings\<close>




section \<open>A listing without entries\<close>

text \<open>
  Claim C9 at a listing that reports a total of 0 and has no entries. The retrieval does
  what the claim says: in series mode one request, for page 1, and an empty list of works;
  in author mode the one request for the total, no page request, and an empty list of
  books. The run does not complete, though: the frame built from the empty list has no
  columns, and reading \<open>ratings_sum\<close> (series) or \<open>average_rating\<close> (author) from it
  raises \<open>AttributeError\<close> before any chart is drawn.
\<close>

theorem empty_listing_raises:
  "series_retrieve (series_client ''0'' []) 49397 (console [])
     = (Inr [], \<lparr>stdin = [], requested = [Series_show 49397 1], charts = []\<rparr>)
   \<and> graph_series (series_client ''0'' []) pandas_stable bond_url (- 1) False False (console [])
     = (Inl AttributeError, \<lparr>stdin = [], requested = [Series_show 49397 1], charts = []\<rparr>)
   \<and> author_books_all_pages (author_client ''0'' []) 2565 (console [])
     = (Inr [], \<lparr>stdin = [], requested = [Author_list 2565 None], charts = []\<rparr>)
   \<and> graph_author (author_client ''0'' []) pandas_stable fleming_url (- 1) False False 1
        (console [])
     = (Inl AttributeError, \<lparr>stdin = [], requested = [Author_list 2565 None], charts = []\<rparr>)"
proof -
  have r: "series_retrieve (series_client ''0'' []) 49397 (console [])
     = (Inr [], \<lparr>stdin = [], requested = [Series_show 49397 1], charts = []\<rparr>)"
    by (simp add: retrieve_one_page [OF py_int_0] console_def)
  have a: "author_books_all_pages (author_client ''0'' []) 2565 (console [])
     = (Inr [], \<lparr>stdin = [], requested = [Author_list 2565 None], charts = []\<rparr>)"
    by (simp add: author_books_all_pages_def author_total_pages_client [OF py_int_0]
        ceil_div_def py_range_def console_def)
  show ?thesis
    by (simp add: r a graph_series_def graph_author_def bond_url_id fleming_url_id
        series_frame_empty author_frame_empty filtered_author_books_def)
qed

section \<open>The pages that are requested\<close>




section \<open>Two requests for the first page\<close>

text \<open>
  Claim C10, as the code has it. In author mode, when the listing reports a total
  \<open>T > 0\<close> and the retrieval succeeds, the requests are: the listing without a page
  number (read for the total only), then the listing of page 1, then the pages 2 to
  \<open>ceil(T / 30)\<close>. The books returned are those of the page requests: replacing the
  books of the answer to the first request by any others changes neither the result nor
  the requests. So the records of the first page come from the second request, and
  nothing in the program checks that the two answers agree.
\<close>

theorem first_page_requested_twice:
  assumes "0 < T"
    and "author_list gc (requested w) i None = Inr resp"
    and "py_int (books_total resp) = Some T"
    and "author_books_all_pages gc i w = (Inr books, w')"
  shows "requested w' = requested w @
           Author_list i None # Author_list i (Some 1) #
           map (\<lambda>p. Author_list i (Some p)) [2..\<lceil>real_of_int T / 30\<rceil>]
         \<and> author_books_all_pages (with_first_books other gc) i w = (Inr books, w')"
proof -
  have c: "ceil_div T DEFAULT_AUTHOR_BOOKS_PER_PAGE = \<lceil>real_of_int T / 30\<rceil>"
    using ceil_div_ceiling [of 30 T] by (simp add: DEFAULT_AUTHOR_BOOKS_PER_PAGE_def)
  have one: "1 \<le> \<lceil>real_of_int T / 30\<rceil>"
    using ceil_div_pos [of 30 T] assms(1) c by (simp add: DEFAULT_AUTHOR_BOOKS_PER_PAGE_def)
  from author_books_all_pages_requested [OF assms(4)] assms(2,3) c
  have "requested w' = requested w @ Author_list i None #
          map (\<lambda>p. Author_list i (Some p)) [1..\<lceil>real_of_int T / 30\<rceil>]"
    by (auto simp: range_from_one)
  then have "requested w' = requested w @
           Author_list i None # Author_list i (Some 1) #
           map (\<lambda>p. Author_list i (Some p)) [2..\<lceil>real_of_int T / 30\<rceil>]"
    by (simp add: upto_from_one [OF one])
  then show ?thesis
    using assms(4) by (simp add: with_first_books_all_pages)
qed

text \<open>
  The claim as written, for every run, fails: for an author whose listing reports no
  books the only request is the one for the total; page 1 is not requested at all.
\<close>

theorem no_books_one_request:
  "author_books_all_pages (author_client ''0'' []) 2565 (console [])
     = (Inr [], \<lparr>stdin = [], requested = [Author_list 2565 None], charts = []\<rparr>)"
  by (simp add: author_books_all_pages_def author_total_pages_client [OF py_int_0]
      ceil_div_def py_range_def console_def)

theorem first_page_requested_twice_witness:
  "(0::int) < 31
   \<and> author_list (author_client ''31'' two_books) (requested (console [])) 2565 None
       = Inr \<lparr>books_total = ''31'', books_book = two_books\<rparr>
   \<and> py_int (books_total \<lparr>books_total = ''31'', books_book = two_books\<rparr>) = Some 31
   \<and> author_books_all_pages (author_client ''31'' two_books) 2565 (console [])
       = (Inr [book_one_rating, book_two_ratings],
          \<lparr>stdin = [],
           requested = [Author_list 2565 None, Author_list 2565 (Some 1),
                        Author_list 2565 (Some 2)],
           charts = []\<rparr>)
   \<and> [Author_list 2565 None, Author_list 2565 (Some 1), Author_list 2565 (Some 2)]
       = requested (console []) @ Author_list 2565 None # Author_list 2565 (Some 1) #
           map (\<lambda>p. Author_list 2565 (Some p)) [2..\<lceil>real_of_int 31 / 30\<rceil>]
   \<and> author_books_all_pages (with_first_books [] (author_client ''31'' two_books)) 2565
        (console [])
       = (Inr [book_one_rating, book_two_ratings],
          \<lparr>stdin = [],
           requested = [Author_list 2565 None, Author_list 2565 (Some 1),
                        Author_list 2565 (Some 2)],
           charts = []\<rparr>)"
proof -
  let ?ap = "\<lparr>books_total = ''31'', books_book = two_books\<rparr>"
  have a1: "author_list (author_client ''31'' two_books) (requested (console [])) 2565 None
      = Inr ?ap"
    by (simp add: author_client_def)
  have t: "py_int (books_total ?ap) = Some 31" by (simp add: py_int_31)
  from first_page_requested_twice [OF _ a1 t all_pages_31, of "[]"] a1 t all_pages_31
  show ?thesis by simp
qed

section \<open>Sorting by rating\<close>




section \<open>The cut-off\<close>

text \<open>
  Claim C1, as the code has it, for a cut-off that is not negative. A chart in the order
  of the listing holds the first \<open>cut_off\<close> rows. A chart sorted by rating holds the
  first \<open>cut_off\<close> rows of the listing, sorted: the frame is cut before it is sorted,
  so these are in general not the first \<open>cut_off\<close> rows of the sorted frame. With the
  cut-off 0 both charts are empty, and the empty chart is handed to the plot like any
  other (given that the library's indexer of an empty column is empty).
\<close>

theorem cut_off_before_sort:
  assumes "0 \<le> cut_off"
  shows
    "avg_rating_in_series_order sdf cut_off
       = take (nat cut_off) (map (\<lambda>r. (title r, average_rating r)) sdf)
     \<and> avg_rating_by_popularity adf cut_off
       = take (nat cut_off) (map (\<lambda>r. (row_title_without_series r, row_average_rating r)) adf)
     \<and> series_book_by_average_rating pd sdf cut_off
       = map (\<lambda>r. (title r, average_rating r))
           (sort_values_desc (nargsort pd) average_rating (take (nat cut_off) sdf))
     \<and> author_book_by_average_rating pd adf cut_off
       = map (\<lambda>r. (row_title_without_series r, row_average_rating r))
           (sort_values_desc (nargsort pd) row_average_rating (take (nat cut_off) adf))
     \<and> (cut_off = 0 \<and> nargsort pd [] = [] \<longrightarrow>
          series_chart pd sdf sort_by_rating cut_off = []
          \<and> author_chart pd adf sort_by_rating cut_off = []
          \<and> series_loop pd sdf sort_by_rating False cut_off w
              = (Inr (), w\<lparr>charts := charts w @ [[]]\<rparr>)
          \<and> author_loop pd adf sort_by_rating False cut_off w
              = (Inr (), w\<lparr>charts := charts w @ [[]]\<rparr>))"
proof (intro conjI impI)
  show "avg_rating_in_series_order sdf cut_off
       = take (nat cut_off) (map (\<lambda>r. (title r, average_rating r)) sdf)"
    using assms by (simp add: avg_rating_in_series_order_def slice_to_take)
  show "avg_rating_by_popularity adf cut_off
       = take (nat cut_off) (map (\<lambda>r. (row_title_without_series r, row_average_rating r)) adf)"
    using assms by (simp add: avg_rating_by_popularity_def slice_to_take)
  show "series_book_by_average_rating pd sdf cut_off
       = map (\<lambda>r. (title r, average_rating r))
           (sort_values_desc (nargsort pd) average_rating (take (nat cut_off) sdf))"
    using assms by (rule series_sorted_chart)
  show "author_book_by_average_rating pd adf cut_off
       = map (\<lambda>r. (row_title_without_series r, row_average_rating r))
           (sort_values_desc (nargsort pd) row_average_rating (take (nat cut_off) adf))"
    using assms by (rule author_sorted_chart)
next
  assume z: "cut_off = 0 \<and> nargsort pd [] = []"
  show s: "series_chart pd sdf sort_by_rating cut_off = []"
    using z by (simp add: series_chart_def series_sorted_chart sort_values_desc_Nil
        avg_rating_in_series_order_def py_slice_to_def)
  show a: "author_chart pd adf sort_by_rating cut_off = []"
    using z by (simp add: author_chart_def author_sorted_chart sort_values_desc_Nil
        avg_rating_by_popularity_def py_slice_to_def)
  show "series_loop pd sdf sort_by_rating False cut_off w
              = (Inr (), w\<lparr>charts := charts w @ [[]]\<rparr>)"
    by (simp add: series_loop_once s plot_def)
  show "author_loop pd adf sort_by_rating False cut_off w
              = (Inr (), w\<lparr>charts := charts w @ [[]]\<rparr>)"
    by (simp add: author_loop_once a plot_def)
qed

text \<open>
  The claim as written fails on the frame A (3.5), B (4.0), C (4.0). Sorted by rating with
  cut-off 1 the chart is A, the first row of the listing, and not B, the first row of the
  sorted order. And the cut-off \<open>-1\<close> does not keep all rows: the chart in listing
  order is A, B, without the last row.
\<close>

theorem cut_off_is_not_after_sort:
  "series_book_by_average_rating pandas_stable frame_ABC 1 = [(''A'', Fin (7 / 2))]
   \<and> take 1 (series_book_by_average_rating pandas_stable frame_ABC 3) = [(''B'', Fin 4)]
   \<and> avg_rating_in_series_order frame_ABC (- 1) = [(''A'', Fin (7 / 2)), (''B'', Fin 4)]"
  by (simp add: sorted_ABC_first_one sorted_ABC_stable chart_ABC_all_but_last)

theorem cut_off_before_sort_witness:
  "(0::int) \<le> 0 \<and> nargsort pandas_stable [] = []
   \<and> series_chart pandas_stable frame_ABC True 0 = []
   \<and> series_loop pandas_stable frame_ABC True False 0 (console [])
       = (Inr (), \<lparr>stdin = [], requested = [], charts = [[]]\<rparr>)
   \<and> author_loop pandas_stable rows_fleming False False 0 (console [])
       = (Inr (), \<lparr>stdin = [], requested = [], charts = [[]]\<rparr>)
   \<and> (0::int) \<le> 2
   \<and> avg_rating_in_series_order frame_ABC 2 = [(''A'', Fin (7 / 2)), (''B'', Fin 4)]"
proof -
  have n: "nargsort pandas_stable [] = []"
    by (simp add: pandas_stable_def argsort_stable_Nil)
  from cut_off_before_sort [of 0 frame_ABC rows_fleming pandas_stable True "console []"] n
  have "series_chart pandas_stable frame_ABC True 0 = []"
    and "series_loop pandas_stable frame_ABC True False 0 (console [])
       = (Inr (), \<lparr>stdin = [], requested = [], charts = [[]]\<rparr>)"
    by (simp_all add: console_def)
  moreover
  from cut_off_before_sort [of 0 frame_ABC rows_fleming pandas_stable False "console []"] n
  have "author_loop pandas_stable rows_fleming False False 0 (console [])
       = (Inr (), \<lparr>stdin = [], requested = [], charts = [[]]\<rparr>)"
    by (simp add: console_def)
  moreover
  from cut_off_before_sort [of 2 frame_ABC rows_fleming pandas_stable]
  have "avg_rating_in_series_order frame_ABC 2 = [(''A'', Fin (7 / 2)), (''B'', Fin 4)]"
    by (simp add: frame_ABC_def)
  ultimately show ?thesis using n by simp
qed

section \<open>URLs without an id\<close>



end
